theory Spec2Isabelle
  imports Complex_Main
begin

section \<open>Python values, errors and console output\<close>

text \<open>
  The module \<^verbatim>\<open>asf_notebook.py\<close> is modelled function by function. A Python
  exception (or \<^verbatim>\<open>sys.exit\<close>) is a value of \<open>py_error\<close>; a function that can
  raise returns \<open>py_error + 'a\<close> with \<open>Inl\<close> for the exception. A function that can
  fall off its end or execute a bare \<^verbatim>\<open>return\<close> returns an \<open>option\<close>, \<open>None\<close>
  being Python's \<^verbatim>\<open>None\<close>. What a function prints is a list of strings, one per
  call of \<^verbatim>\<open>print\<close>.
\<close>

datatype py_error =
    AssertionError string
  | KeyError
  | IndexError
  | ValueError
  | TypeError
  | ZeroDivisionError
  | EOFError
  | FileNotFoundError
  | RequestException string
  | SystemExit int

text \<open>
  A JSON record as the remote services return it: a dictionary with string keys. Only
  string-valued fields (\<^verbatim>\<open>name\<close>, \<^verbatim>\<open>url\<close>, \<^verbatim>\<open>downloadUrl\<close>,
  \<^verbatim>\<open>fileName\<close>) are read by the functions modelled here, so a record is an
  association list from keys to strings, looked up with \<open>map_of\<close>; a missing key
  raises \<^verbatim>\<open>KeyError\<close>.
\<close>

type_synonym py_dict = "(string \<times> string) list"

definition dict_get :: "py_dict \<Rightarrow> string \<Rightarrow> py_error + string" where
  "dict_get d k = (case map_of d k of None \<Rightarrow> Inl KeyError | Some v \<Rightarrow> Inr v)"

subsection \<open>The builtin \<^verbatim>\<open>int\<close> on strings\<close>

text \<open>
  \<^verbatim>\<open>int(s)\<close> in base ten, for a string of code points below 256: surrounding
  white space is dropped, one sign is allowed, and the digits may be grouped by single
  underscores between digits. Anything else raises \<^verbatim>\<open>ValueError\<close>, which is
  \<open>None\<close> here.
\<close>

definition py_isspace :: "char \<Rightarrow> bool" where
  "py_isspace c = (c \<in> set [CHR 0x09, CHR 0x0A, CHR 0x0B, CHR 0x0C, CHR 0x0D, CHR 0x20,
                              CHR 0x85, CHR 0xA0])"

definition py_isdigit :: "char \<Rightarrow> bool" where
  "py_isdigit c = (c \<in> set ''0123456789'')"

definition digit_val :: "char \<Rightarrow> int" where
  "digit_val c = int (of_char c) - 48"

fun digits_grouped :: "string \<Rightarrow> bool" where
  "digits_grouped [] = False"
| "digits_grouped [c] = py_isdigit c"
| "digits_grouped (c # d # ds) =
     (py_isdigit c \<and> (if d = CHR ''_'' then digits_grouped ds else digits_grouped (d # ds)))"

fun digits_value :: "int \<Rightarrow> string \<Rightarrow> int" where
  "digits_value acc [] = acc"
| "digits_value acc (c # cs) =
     (if c = CHR ''_'' then digits_value acc cs else digits_value (10 * acc + digit_val c) cs)"

definition py_strip :: "string \<Rightarrow> string" where
  "py_strip s = rev (dropWhile py_isspace (rev (dropWhile py_isspace s)))"

definition py_int :: "string \<Rightarrow> int option" where
  "py_int s =
     (case py_strip s of
        [] \<Rightarrow> None
      | c # cs \<Rightarrow>
          if c = CHR ''-'' then (if digits_grouped cs then Some (- digits_value 0 cs) else None)
          else if c = CHR ''+'' then (if digits_grouped cs then Some (digits_value 0 cs) else None)
          else (if digits_grouped (c # cs) then Some (digits_value 0 (c # cs)) else None))"

subsection \<open>\<^verbatim>\<open>datetime.date\<close>\<close>

record date =
  year :: int
  month :: int
  day :: int

definition is_leap :: "int \<Rightarrow> bool" where
  "is_leap y = (y mod 4 = 0 \<and> (y mod 100 \<noteq> 0 \<or> y mod 400 = 0))"

definition days_in_month :: "int \<Rightarrow> int \<Rightarrow> int" where
  "days_in_month y m =
     (if m = 2 then (if is_leap y then 29 else 28)
      else if m = 4 \<or> m = 6 \<or> m = 9 \<or> m = 11 then 30 else 31)"

text \<open>The constructor \<^verbatim>\<open>datetime.date(y, m, d)\<close>: \<^verbatim>\<open>ValueError\<close> outside the calendar.\<close>

definition py_date :: "int \<Rightarrow> int \<Rightarrow> int \<Rightarrow> py_error + date" where
  "py_date y m d =
     (if 1 \<le> y \<and> y \<le> 9999 \<and> 1 \<le> m \<and> m \<le> 12 \<and> 1 \<le> d \<and> d \<le> days_in_month y m
      then Inr \<lparr>year = y, month = m, day = d\<rparr>
      else Inl ValueError)"

text \<open>Dates compare by year, then month, then day.\<close>

definition date_lt :: "date \<Rightarrow> date \<Rightarrow> bool" where
  "date_lt a b =
     (year a < year b \<or> (year a = year b \<and>
        (month a < month b \<or> (month a = month b \<and> day a < day b))))"

definition date_le :: "date \<Rightarrow> date \<Rightarrow> bool" where
  "date_le a b =
     (year a < year b \<or> (year a = year b \<and>
        (month a < month b \<or> (month a = month b \<and> day a \<le> day b))))"

subsection \<open>\<^verbatim>\<open>str.split\<close> with a one-character separator\<close>

text \<open>
  \<^verbatim>\<open>s.split(sep)\<close> cuts at every occurrence of the separator and keeps empty
  tokens; the result is never empty (\<^verbatim>\<open>''.split('_') == ['']\<close>).
\<close>

fun py_split :: "char \<Rightarrow> string \<Rightarrow> string list" where
  "py_split sep [] = [[]]"
| "py_split sep (c # cs) =
     (if c = sep then [] # py_split sep cs
      else (case py_split sep cs of [] \<Rightarrow> [[c]] | t # ts \<Rightarrow> (c # t) # ts))"

text \<open>List indexing \<^verbatim>\<open>xs[i]\<close> for a non-negative index: \<^verbatim>\<open>IndexError\<close> past the end.\<close>

definition py_index :: "'a list \<Rightarrow> nat \<Rightarrow> py_error + 'a" where
  "py_index xs i = (if i < length xs then Inr (xs ! i) else Inl IndexError)"

section \<open>The product filter chain\<close>

subsection \<open>\<^verbatim>\<open>get_aquisition_date_from_product_name\<close>\<close>

text \<open>
  The expression \<^verbatim>\<open>datetime.date(int(d[0:4]), int(d[4:6]), int(d[6:8]))\<close>, which the
  source writes in both branches. A slice never raises: on a short token it is short
  or empty, and \<^verbatim>\<open>int\<close> raises \<^verbatim>\<open>ValueError\<close> on it.
\<close>

definition date_of_token :: "string \<Rightarrow> py_error + date" where
  "date_of_token d =
     (case py_int (take 4 d) of
        None \<Rightarrow> Inl ValueError
      | Some y \<Rightarrow>
          (case py_int (take 2 (drop 4 d)) of
             None \<Rightarrow> Inl ValueError
           | Some m \<Rightarrow>
               (case py_int (take 2 (drop 6 d)) of
                  None \<Rightarrow> Inl ValueError
                | Some dd \<Rightarrow> py_date y m dd)))"

definition get_aquisition_date_from_product_name :: "py_dict \<Rightarrow> py_error + date" where
  "get_aquisition_date_from_product_name product_info =
     (case dict_get product_info ''name'' of
        Inl e \<Rightarrow> Inl e
      | Inr product_name \<Rightarrow>
          (let split_name = py_split CHR ''_'' product_name in
           if length split_name = 1 then
             (let split_name = py_split CHR ''-'' product_name in
              case py_index split_name 1 of
                Inl e \<Rightarrow> Inl e
              | Inr d \<Rightarrow> date_of_token d)
           else
             (case py_index split_name 4 of
                Inl e \<Rightarrow> Inl e
              | Inr d \<Rightarrow> date_of_token d)))"

subsection \<open>\<^verbatim>\<open>filter_date_range\<close>\<close>

text \<open>
  The loop over the products, with the list \<^verbatim>\<open>filtered_products\<close> as accumulator.
  An exception of the date parser leaves the loop at once. The test
  \<^verbatim>\<open>date >= start_date\<close> is \<open>date_le start_date d\<close>.
\<close>

fun filter_date_loop :: "py_dict list \<Rightarrow> date \<Rightarrow> date \<Rightarrow> py_dict list \<Rightarrow> py_error + py_dict list" where
  "filter_date_loop [] start_date end_date filtered_products = Inr filtered_products"
| "filter_date_loop (product # rest) start_date end_date filtered_products =
     (case get_aquisition_date_from_product_name product of
        Inl e \<Rightarrow> Inl e
      | Inr d \<Rightarrow>
          if date_le start_date d \<and> date_lt d end_date
          then filter_date_loop rest start_date end_date (filtered_products @ [product])
          else filter_date_loop rest start_date end_date filtered_products)"

definition filter_date_range :: "py_dict list \<Rightarrow> date \<Rightarrow> date \<Rightarrow> py_error + py_dict list" where
  "filter_date_range product_list start_date end_date =
     (if length product_list > 0
      then filter_date_loop product_list start_date end_date []
      else Inl (AssertionError
             ''Error: product_list must contain at least one product_info dictionary.''))"

subsection \<open>\<^verbatim>\<open>flight_direction_valid\<close>\<close>

definition valid_directions :: "string list" where
  "valid_directions = [''A'', ''ASC'', ''ASCENDING'', ''D'', ''DESC'', ''DESCENDING'']"

text \<open>\<^verbatim>\<open>str\<close> of a list of plain strings, as an f-string prints it.\<close>

fun py_join :: "string \<Rightarrow> string list \<Rightarrow> string" where
  "py_join sep [] = []"
| "py_join sep [x] = x"
| "py_join sep (x # y # ys) = x @ sep @ py_join sep (y # ys)"

definition py_str_list :: "string list \<Rightarrow> string" where
  "py_str_list xs = ''['' @ py_join '', '' (map (\<lambda>x. [CHR 0x27] @ x @ [CHR 0x27]) xs) @ '']''"

text \<open>The result is the text printed, then the value returned.\<close>

definition flight_direction_valid :: "string \<Rightarrow> string list \<times> bool" where
  "flight_direction_valid flight_direction =
     (if flight_direction \<notin> set valid_directions
      then ([''Error: '' @ flight_direction @ '' is not a valid flight direction.'',
             ''Valid Directions: '' @ py_str_list valid_directions], False)
      else ([], True))"

text \<open>
  The products a date range keeps, as the specification words it: those whose
  acquisition date \<open>d\<close> satisfies \<open>s \<le> d\<close> and \<open>d < e\<close>.
\<close>

definition acquired_in :: "date \<Rightarrow> date \<Rightarrow> py_dict \<Rightarrow> bool" where
  "acquired_in s e p =
     (case get_aquisition_date_from_product_name p of
        Inl _ \<Rightarrow> False
      | Inr d \<Rightarrow> date_le s d \<and> date_lt d e)"

subsection \<open>The search service and \<^verbatim>\<open>product_filter\<close>\<close>

text \<open>
  The network is a parameter. \<open>vertex_post\<close> is \<^verbatim>\<open>requests.post\<close> on the search
  URL with the given parameters: \<open>Inl\<close> carries the message of a
  \<^verbatim>\<open>RequestException\<close>, \<open>Inr\<close> the response, whose \<^verbatim>\<open>json()\<close> is an array of
  arrays of records or fails. \<open>post_stream\<close> is \<^verbatim>\<open>requests.post(url, stream=True)\<close>
  on a download URL.
\<close>

datatype param = PStr string | PInt int

record vertex_response =
  json :: "py_error + py_dict list list"

record response =
  content_length :: "string option"
  chunks :: "string list"

record network =
  vertex_post :: "(string \<times> param) list \<Rightarrow> string + vertex_response"
  post_stream :: "string \<Rightarrow> string + response"

text \<open>Truth values of the optional arguments: \<^verbatim>\<open>None\<close>, \<^verbatim>\<open>''\<close> and \<^verbatim>\<open>0\<close> are false.\<close>

definition truthy_str :: "string option \<Rightarrow> bool" where
  "truthy_str v = (case v of None \<Rightarrow> False | Some s \<Rightarrow> s \<noteq> [])"

definition truthy_int :: "int option \<Rightarrow> bool" where
  "truthy_int v = (case v of None \<Rightarrow> False | Some n \<Rightarrow> n \<noteq> 0)"

definition filter_parameters :: "string \<Rightarrow> string option \<Rightarrow> int option \<Rightarrow> (string \<times> param) list" where
  "filter_parameters granule_name flight_direction path =
     [(''granule_list'', PStr granule_name), (''output'', PStr ''json'')]
     @ (case flight_direction of
          Some fd \<Rightarrow> (if fd \<noteq> [] then [(''flightDirection'', PStr fd)] else [])
        | None \<Rightarrow> [])
     @ (case path of
          Some n \<Rightarrow> (if n \<noteq> 0 then [(''relativeOrbit'', PInt n)] else [])
        | None \<Rightarrow> [])"

text \<open>
  The loop of \<^verbatim>\<open>product_filter\<close>: one search request per product. The triple is the
  text printed, and the list \<^verbatim>\<open>filtered_products\<close> or the exception.
\<close>

fun product_filter_loop ::
  "network \<Rightarrow> py_dict list \<Rightarrow> string option \<Rightarrow> int option \<Rightarrow> py_dict list
     \<Rightarrow> string list \<times> (py_error + py_dict list)" where
  "product_filter_loop net [] flight_direction path filtered_products = ([], Inr filtered_products)"
| "product_filter_loop net (product # rest) flight_direction path filtered_products =
     (case dict_get product ''name'' of
        Inl e \<Rightarrow> ([], Inl e)
      | Inr granule_name \<Rightarrow>
          (case py_index (py_split CHR ''-'' granule_name) 0 of
             Inl e \<Rightarrow> ([], Inl e)
           | Inr granule_name \<Rightarrow>
               (case vertex_post net (filter_parameters granule_name flight_direction path) of
                  Inl e \<Rightarrow> ([e], Inl (SystemExit 1))
                | Inr response \<Rightarrow>
                    (case json response of
                       Inl e \<Rightarrow> ([], Inl e)
                     | Inr js \<Rightarrow>
                         (case py_index js 0 of
                            Inl e \<Rightarrow> ([], Inl e)
                          | Inr first \<Rightarrow>
                              (let json_response =
                                     (case first of [] \<Rightarrow> None | r # _ \<Rightarrow> Some r)
                               in if json_response \<noteq> None \<and> json_response \<noteq> Some []
                                  then product_filter_loop net rest flight_direction path
                                         (filtered_products @ [product])
                                  else product_filter_loop net rest flight_direction path
                                         filtered_products))))))"

definition product_filter ::
  "network \<Rightarrow> py_dict list \<Rightarrow> string option \<Rightarrow> int option
     \<Rightarrow> string list \<times> (py_error + py_dict list option)" where
  "product_filter net product_list flight_direction path =
     (if \<not> length product_list > 0
      then ([], Inl (AssertionError
             ''Error: product_list must contain at least one product_info dictionary.''))
      else if truthy_str flight_direction \<or> truthy_int path
      then (case product_filter_loop net product_list flight_direction path [] of
              (out, Inl e) \<Rightarrow> (out, Inl e)
            | (out, Inr filtered_products) \<Rightarrow> (out, Inr (Some filtered_products)))
      else ([], Inr None))"

section \<open>The Hyp3 subscription client\<close>

text \<open>
  The Hyp3 API object is external. What its \<^verbatim>\<open>get_subscriptions(enabled=True)\<close>
  answers is the parameter: an exception, \<^verbatim>\<open>None\<close>, or a list of subscriptions. The
  handler \<^verbatim>\<open>except Exception: raise\<close> passes the exception on.
\<close>

definition get_hyp3_subscriptions ::
  "py_error + 'a list option \<Rightarrow> string list \<times> (py_error + 'a list option)" where
  "get_hyp3_subscriptions api_get_subscriptions =
     (case api_get_subscriptions of
        Inl e \<Rightarrow> ([], Inl e)
      | Inr subscriptions \<Rightarrow>
          ((if subscriptions = None \<or> subscriptions = Some []
            then [''There are no subscriptions associated with this Hyp3 account.'']
            else []),
           Inr subscriptions))"

section \<open>The granule lookup and download client\<close>

definition get_vertex_granule_info ::
  "network \<Rightarrow> string \<Rightarrow> string \<Rightarrow> string list \<times> (py_error + py_dict option)" where
  "get_vertex_granule_info net granule_name processing_level =
     (case vertex_post net [(''granule_list'', PStr granule_name), (''output'', PStr ''json''),
                            (''processingLevel'', PStr processing_level)] of
        Inl e \<Rightarrow> ([e], Inl (SystemExit 1))
      | Inr response \<Rightarrow>
          (case json response of
             Inl e \<Rightarrow> ([], Inl e)
           | Inr js \<Rightarrow>
               if length js > 0 then
                 (case py_index js 0 of
                    Inl e \<Rightarrow> ([], Inl e)
                  | Inr first \<Rightarrow>
                      (case py_index first 0 of
                         Inl e \<Rightarrow> ([], Inl e)
                       | Inr json_response \<Rightarrow> ([], Inr (Some json_response))))
               else ([''get_vertex_granule_info() failed.'' @ [CHR 0x0A]
                        @ ''granule/processing level mismatch.''], Inr None)))"

text \<open>
  The file system maps a file name to the bytes of the file.
  \<^verbatim>\<open>os.stat(f).st_size\<close> is the length of the bytes.
\<close>

type_synonym filesystem = "string \<Rightarrow> string option"

definition st_size :: "filesystem \<Rightarrow> string \<Rightarrow> py_error + int" where
  "st_size fs f = (case fs f of None \<Rightarrow> Inl FileNotFoundError | Some b \<Rightarrow> Inr (int (length b)))"

text \<open>
  \<^verbatim>\<open>int(request.headers.get('content-length'))\<close>: \<^verbatim>\<open>TypeError\<close> without the
  header, \<^verbatim>\<open>ValueError\<close> when it is no number.
\<close>

definition declared_length :: "response \<Rightarrow> py_error + int" where
  "declared_length r =
     (case content_length r of
        None \<Rightarrow> Inl TypeError
      | Some h \<Rightarrow> (case py_int h of None \<Rightarrow> Inl ValueError | Some n \<Rightarrow> Inr n))"

text \<open>
  The loop of \<^verbatim>\<open>download\<close> over the chunks of the body: a chunk that is not empty
  is written, then the progress bar divides by the declared length, which raises
  \<^verbatim>\<open>ZeroDivisionError\<close> when that length is 0. The result is what the file holds
  and the exception, if any. The text of the progress bar depends on the clock and is
  left out, and so is its division by the elapsed time, which a clock that has advanced
  makes positive.
\<close>

fun write_chunks :: "int \<Rightarrow> string list \<Rightarrow> string \<Rightarrow> string \<times> py_error option" where
  "write_chunks total_length [] written = (written, None)"
| "write_chunks total_length (chunk # rest) written =
     (if chunk = [] then write_chunks total_length rest written
      else if total_length = 0 then (written @ chunk, Some ZeroDivisionError)
      else write_chunks total_length rest (written @ chunk))"

text \<open>\<^verbatim>\<open>open(filename, 'wb')\<close> empties the file before anything else happens.\<close>

definition download :: "string \<Rightarrow> response \<Rightarrow> filesystem \<Rightarrow> filesystem \<times> py_error option" where
  "download filename request fs =
     (case declared_length request of
        Inl e \<Rightarrow> (fs(filename \<mapsto> []), Some e)
      | Inr total_length \<Rightarrow>
          (case write_chunks total_length (chunks request) [] of
             (written, err) \<Rightarrow> (fs(filename \<mapsto> written), err)))"

text \<open>The result: the text printed, the file system afterwards, the value or exception.\<close>

definition download_ASF_granule ::
  "network \<Rightarrow> filesystem \<Rightarrow> string \<Rightarrow> string
     \<Rightarrow> string list \<times> filesystem \<times> (py_error + string option)" where
  "download_ASF_granule net fs granule_name processing_level =
     (case get_vertex_granule_info net granule_name processing_level of
        (out, Inl e) \<Rightarrow> (out, fs, Inl e)
      | (out, Inr None) \<Rightarrow> (out, fs, Inl TypeError)
      | (out, Inr (Some vertex_info)) \<Rightarrow>
          (case dict_get vertex_info ''downloadUrl'' of
             Inl e \<Rightarrow> (out, fs, Inl e)
           | Inr url \<Rightarrow>
               (case dict_get vertex_info ''fileName'' of
                  Inl e \<Rightarrow> (out, fs, Inl e)
                | Inr local_filename \<Rightarrow>
                    (case post_stream net url of
                       Inl e \<Rightarrow> (out @ [e], fs, Inl (SystemExit 1))
                     | Inr r \<Rightarrow>
                         (case declared_length r of
                            Inl e \<Rightarrow> (out, fs, Inl e)
                          | Inr total_length \<Rightarrow>
                              if fs local_filename \<noteq> None
                                 \<and> st_size fs local_filename = Inr total_length
                              then (out @ [local_filename
                                      @ '' is already present in current working directory.''],
                                    fs, Inr (Some local_filename))
                              else
                                (case download local_filename r fs of
                                   (fs', Some e) \<Rightarrow> (out @ [''Downloading '' @ url], fs', Inl e)
                                 | (fs', None) \<Rightarrow>
                                     (case st_size fs' local_filename of
                                        Inl e \<Rightarrow> (out @ [''Downloading '' @ url], fs', Inl e)
                                      | Inr new_size \<Rightarrow>
                                          if new_size < total_length
                                          then (out @ [''Downloading '' @ url,
                                                  [CHR 0x0A] @ ''Download failed!'' @ [CHR 0x0A]],
                                                fs', Inr None)
                                          else (out @ [''Downloading '' @ url,
                                                  [CHR 0x0A] @ ''Done'' @ [CHR 0x0A]],
                                                fs', Inr (Some local_filename)))))))))"

section \<open>The polarization selector\<close>

text \<open>
  The operating system is a parameter: \<^verbatim>\<open>os.path.exists\<close> and \<^verbatim>\<open>glob.glob\<close>.
  The console input is the list of the lines still to be read; \<^verbatim>\<open>input()\<close> takes
  the first one and raises \<^verbatim>\<open>EOFError\<close> when there is none.
\<close>

record os_env =
  os_path_exists :: "string \<Rightarrow> bool"
  glob :: "string \<Rightarrow> string list"

definition polarization_exists :: "os_env \<Rightarrow> string \<Rightarrow> bool" where
  "polarization_exists env paths = (if glob env paths \<noteq> [] then True else False)"

text \<open>\<^verbatim>\<open>str\<close> of a natural number, for the menu.\<close>

fun str_nat :: "nat \<Rightarrow> string" where
  "str_nat n =
     (if n < 10 then [char_of (48 + n)]
      else str_nat (n div 10) @ [char_of (48 + n mod 10)])"

text \<open>
  The loop \<^verbatim>\<open>while True\<close> that reads the user's choice. The result is the text
  printed, the input left, and the value or exception. The source accepts a choice
  equal to the number of polarizations, and indexing then raises \<^verbatim>\<open>IndexError\<close>.
\<close>

fun read_choice ::
  "string \<Rightarrow> string list \<Rightarrow> string list \<Rightarrow> string list \<times> string list \<times> (py_error + string option)" where
  "read_choice base_path polarizations [] = ([], [], Inl EOFError)"
| "read_choice base_path polarizations (user_input # rest) =
     (case py_int user_input of
        None \<Rightarrow>
          (case read_choice base_path polarizations rest of
             (out, left, res) \<Rightarrow>
               (''Please enter the number of an available polarization.'' # out, left, res))
      | Some choice \<Rightarrow>
          if choice > int (length polarizations) \<or> choice < 0 then
            (case read_choice base_path polarizations rest of
               (out, left, res) \<Rightarrow>
                 (''Please enter the number of an available polarization.'' # out, left, res))
          else
            (case py_index polarizations (nat choice) of
               Inl e \<Rightarrow> ([], rest, Inl e)
             | Inr pol \<Rightarrow> ([], rest, Inr (Some (base_path @ ''/*/*'' @ pol @ ''.tif'')))))"

definition found_polarizations :: "os_env \<Rightarrow> string \<Rightarrow> string \<Rightarrow> string list" where
  "found_polarizations env base_path separator =
     (if polarization_exists env (base_path @ ''/*/*'' @ separator @ ''VV.tif'')
      then [separator @ ''VV''] else [])
     @ (if polarization_exists env (base_path @ ''/*/*'' @ separator @ ''VH.tif'')
        then [separator @ ''VH''] else [])
     @ (if polarization_exists env (base_path @ ''/*/*'' @ separator @ ''HV.tif'')
        then [separator @ ''HV''] else [])
     @ (if polarization_exists env (base_path @ ''/*/*'' @ separator @ ''HH.tif'')
        then [separator @ ''HH''] else [])"

definition select_RTC_polarization ::
  "os_env \<Rightarrow> string list \<Rightarrow> int \<Rightarrow> string
     \<Rightarrow> string list \<times> string list \<times> (py_error + string option)" where
  "select_RTC_polarization env stdin process_type base_path =
     (if \<not> (process_type = 2 \<or> process_type = 18)
      then ([], stdin, Inl (AssertionError ''Error: process_type must be 2 (GAMMA) or 18 (S1TBX).''))
      else if \<not> os_path_exists env base_path
      then ([], stdin, Inl (AssertionError
              (''Error: select_RTC_polarization was passed an invalid base_path, '' @ base_path)))
      else
        (let separator = (if process_type = 2 then ''_'' else ''-'');
             polarizations = found_polarizations env base_path separator
         in if length polarizations = 1
            then ([''Selecting the only available polarization: '' @ polarizations ! 0],
                  stdin, Inr (Some (base_path @ ''/*/*'' @ polarizations ! 0 @ ''.tif'')))
            else if length polarizations > 1
            then (case read_choice base_path polarizations stdin of
                    (out, left, res) \<Rightarrow>
                      ([''Select a polarization:'']
                       @ map (\<lambda>i. ''['' @ str_nat i @ '']: '' @ polarizations ! i)
                           [0..<length polarizations]
                       @ out, left, res))
            else ([''Error: found no available polarizations.''], stdin, Inr None)))"

section \<open>The area-of-interest widget\<close>

subsection \<open>Numbers\<close>

text \<open>
  A coordinate is a Python number: an integer or a float. Its value is a real number,
  or one of the three special floats. Comparisons are exact, and every comparison with
  \<^verbatim>\<open>nan\<close> is false. The bounds of the world are the literals of the source; the
  floats they denote lie so close below them that no float and no integer separates the
  two, so a comparison of a Python number with the literal is the comparison with the float.
\<close>

datatype py_num = Num real | PosInf | NegInf | NaN

fun py_lt :: "py_num \<Rightarrow> py_num \<Rightarrow> bool" where
  "py_lt NaN b = False"
| "py_lt a NaN = False"
| "py_lt (Num a) (Num b) = (a < b)"
| "py_lt (Num a) PosInf = True"
| "py_lt (Num a) NegInf = False"
| "py_lt PosInf b = False"
| "py_lt NegInf NegInf = False"
| "py_lt NegInf b = True"

definition py_gt :: "py_num \<Rightarrow> py_num \<Rightarrow> bool" where
  "py_gt a b = py_lt b a"

fun py_le :: "py_num \<Rightarrow> py_num \<Rightarrow> bool" where
  "py_le NaN b = False"
| "py_le a NaN = False"
| "py_le (Num a) (Num b) = (a \<le> b)"
| "py_le (Num a) PosInf = True"
| "py_le (Num a) NegInf = False"
| "py_le PosInf PosInf = True"
| "py_le PosInf b = False"
| "py_le NegInf b = True"

definition world_x :: real where
  "world_x = 20037508.342789244"

definition world_y :: real where
  "world_y = 19971868.880408563"

text \<open>A coordinate within the extent \<open>\<plusminus>bound\<close>, as the specification words it.\<close>

definition in_extent :: "real \<Rightarrow> py_num \<Rightarrow> bool" where
  "in_extent bound c = (py_le (Num (- bound)) c \<and> py_le c (Num bound))"

subsection \<open>The object\<close>

text \<open>
  Bokeh's side of the widget, reduced to what decides which Python code runs on an
  event: a figure keeps the callbacks registered with \<^verbatim>\<open>on_event\<close>, which run in
  Python when an event of that name arrives, and those registered with
  \<^verbatim>\<open>js_on_event\<close>, which run in the browser and touch no Python object. The one
  Python callback of the module is the closure \<^verbatim>\<open>python_callback\<close> that
  \<^verbatim>\<open>update_subset_bounds\<close> returns.
\<close>

datatype event_name = SelectionGeometry | Reset

datatype py_handler = Python_callback

datatype js_callback = CustomJS string

record figure =
  py_event_callbacks :: "(event_name \<times> py_handler) list"
  js_event_callbacks :: "(event_name \<times> js_callback option) list"

text \<open>
  The fields of an \<^verbatim>\<open>AOI\<close>. The values of a selection geometry are of any type
  \<open>'v\<close>: the module stores them and never looks into them. \<open>sources\<close> and
  \<open>callbacks\<close> hold the keys of the two dictionaries of Bokeh objects.
\<close>

record 'v aoi =
  geom :: "string \<Rightarrow> 'v option"
  tiff_stack_coords :: "py_num list list"
  subset_coords :: "'v option list list"
  p :: "figure option"
  sources :: "string list"
  callbacks :: "string list"

definition e_length :: string where
  "e_length = ''Error: lower_left_coord must contain one EPSG:3857 coordinate [x, y]''"

definition e_order :: string where
  "e_order = ''Error: A lower_left_coord value is greater than an upper_right_coord value.''"

definition e_off_planet :: string where
  "e_off_planet = ''Error: Cannot instantiate AOI class object with invalid EPSG:3857 coordinates.''"

text \<open>The four tests of \<^verbatim>\<open>__init__\<close> that set \<^verbatim>\<open>coord_error\<close>, in their order.\<close>

definition coord_error :: "py_num list \<Rightarrow> py_num list \<Rightarrow> bool" where
  "coord_error lower_left_coord upper_right_coord =
     (let err = False;
          err = (if py_lt (lower_left_coord ! 0) (Num (- world_x))
                    \<or> py_gt (lower_left_coord ! 0) (Num world_x) then True else err);
          err = (if py_lt (upper_right_coord ! 0) (Num (- world_x))
                    \<or> py_gt (upper_right_coord ! 0) (Num world_x) then True else err);
          err = (if py_lt (lower_left_coord ! 1) (Num (- world_y))
                    \<or> py_gt (lower_left_coord ! 1) (Num world_y) then True else err);
          err = (if py_lt (upper_right_coord ! 1) (Num (- world_y))
                    \<or> py_gt (upper_right_coord ! 1) (Num world_y) then True else err)
      in err)"

text \<open>
  \<^verbatim>\<open>AOI.__init__\<close>. The indexing is in range where it stands: both lengths have
  been asserted to be 2. \<^verbatim>\<open>create_sources\<close> and \<^verbatim>\<open>create_callbacks\<close> build Bokeh
  objects and store them under the keys listed.
\<close>

definition AOI_init :: "py_num list \<Rightarrow> py_num list \<Rightarrow> py_error + 'v aoi" where
  "AOI_init lower_left_coord upper_right_coord =
     (if length lower_left_coord \<noteq> 2 then Inl (AssertionError e_length)
      else if length upper_right_coord \<noteq> 2 then Inl (AssertionError e_length)
      else if \<not> py_lt (lower_left_coord ! 0) (upper_right_coord ! 0)
      then Inl (AssertionError e_order)
      else if \<not> py_lt (lower_left_coord ! 1) (upper_right_coord ! 1)
      then Inl (AssertionError e_order)
      else if coord_error lower_left_coord upper_right_coord
      then Inl (AssertionError e_off_planet)
      else Inr \<lparr>geom = (\<lambda>k. None),
                tiff_stack_coords = [lower_left_coord, upper_right_coord],
                subset_coords = [[None, None], [None, None]],
                p = None,
                sources = [''hover'', ''subset''],
                callbacks = [''subset'', ''latitude'', ''longitude'']\<rparr>)"

subsection \<open>The callbacks\<close>

text \<open>The assignment \<^verbatim>\<open>xss[i][j] = v\<close>: \<^verbatim>\<open>IndexError\<close> out of range.\<close>

definition set_item2 :: "'a list list \<Rightarrow> nat \<Rightarrow> nat \<Rightarrow> 'a \<Rightarrow> py_error + 'a list list" where
  "set_item2 xss i j v =
     (if i < length xss \<and> j < length (xss ! i)
      then Inr (xss[i := (xss ! i)[j := v]])
      else Inl IndexError)"

text \<open>
  One assignment \<^verbatim>\<open>self.subset_coords[i][j] = event.__dict__['geometry'][key]\<close>:
  the right-hand side is read first.
\<close>

definition assign_coord ::
  "'v aoi \<Rightarrow> (string \<Rightarrow> 'v option) \<Rightarrow> nat \<Rightarrow> nat \<Rightarrow> string \<Rightarrow> py_error + 'v aoi" where
  "assign_coord self geometry i j key =
     (case geometry key of
        None \<Rightarrow> Inl KeyError
      | Some v \<Rightarrow>
          (case set_item2 (subset_coords self) i j (Some v) of
             Inl e \<Rightarrow> Inl e
           | Inr sc \<Rightarrow> Inr (self\<lparr>subset_coords := sc\<rparr>)))"

text \<open>
  \<^verbatim>\<open>python_callback\<close>, on the geometry of the event. The object is changed in
  place, so an exception leaves it as far as the callback came: the result is the
  object and the exception, if any. The echo of the coordinates formats floats and is
  left out.
\<close>

definition python_callback :: "'v aoi \<Rightarrow> (string \<Rightarrow> 'v option) \<Rightarrow> 'v aoi \<times> py_error option" where
  "python_callback self geometry =
     (let self0 = self\<lparr>geom := geom self ++ geometry\<rparr> in
      case assign_coord self0 geometry 0 0 ''x0'' of
        Inl e \<Rightarrow> (self0, Some e)
      | Inr self1 \<Rightarrow>
          (case assign_coord self1 geometry 0 1 ''y0'' of
             Inl e \<Rightarrow> (self1, Some e)
           | Inr self2 \<Rightarrow>
               (case assign_coord self2 geometry 1 0 ''x1'' of
                  Inl e \<Rightarrow> (self2, Some e)
                | Inr self3 \<Rightarrow>
                    (case assign_coord self3 geometry 1 1 ''y1'' of
                       Inl e \<Rightarrow> (self3, Some e)
                     | Inr self4 \<Rightarrow> (self4, None)))))"

text \<open>\<^verbatim>\<open>reset_subset_bounds\<close> changes the object and returns \<^verbatim>\<open>None\<close>.\<close>

definition reset_subset_bounds :: "'v aoi \<Rightarrow> 'v aoi" where
  "reset_subset_bounds self = self\<lparr>subset_coords := [[None, None], [None, None]]\<rparr>"

text \<open>
  The two registrations at the end of \<^verbatim>\<open>build_plot\<close>:
  \<^verbatim>\<open>self.p.js_on_event(events.Reset, self.reset_subset_bounds())\<close> evaluates its
  argument, which is the call: the bounds are reset while the plot is built, and the
  value registered is the \<^verbatim>\<open>None\<close> the call returns.
  \<^verbatim>\<open>self.p.on_event(events.SelectionGeometry, self.update_subset_bounds(...))\<close>
  registers the closure.
\<close>

definition build_plot :: "'v aoi \<Rightarrow> 'v aoi" where
  "build_plot self =
     (let fig = \<lparr>py_event_callbacks = [], js_event_callbacks = []\<rparr>;
          self1 = reset_subset_bounds (self\<lparr>p := Some fig\<rparr>);
          fig1 = fig\<lparr>js_event_callbacks := js_event_callbacks fig @ [(Reset, None)]\<rparr>;
          fig2 = fig1\<lparr>py_event_callbacks :=
                        py_event_callbacks fig1 @ [(SelectionGeometry, Python_callback)]\<rparr>
      in self1\<lparr>p := Some fig2\<rparr>)"

text \<open>
  An event as it arrives from the browser: a selection carries its geometry, a reset
  carries nothing. The Python callbacks registered for its name run in order; the
  first exception ends the run.
\<close>

datatype 'v event = SelectionGeometry_event "string \<Rightarrow> 'v option" | Reset_event

fun name_of :: "'v event \<Rightarrow> event_name" where
  "name_of (SelectionGeometry_event g) = SelectionGeometry"
| "name_of Reset_event = Reset"

fun run_handler :: "py_handler \<Rightarrow> 'v aoi \<Rightarrow> 'v event \<Rightarrow> 'v aoi \<times> py_error option" where
  "run_handler Python_callback self (SelectionGeometry_event g) = python_callback self g"
| "run_handler Python_callback self Reset_event = (self, Some KeyError)"

fun run_handlers :: "py_handler list \<Rightarrow> 'v aoi \<Rightarrow> 'v event \<Rightarrow> 'v aoi \<times> py_error option" where
  "run_handlers [] self ev = (self, None)"
| "run_handlers (h # hs) self ev =
     (case run_handler h self ev of
        (self1, Some e) \<Rightarrow> (self1, Some e)
      | (self1, None) \<Rightarrow> run_handlers hs self1 ev)"

definition on_browser_event :: "'v aoi \<Rightarrow> 'v event \<Rightarrow> 'v aoi \<times> py_error option" where
  "on_browser_event self ev =
     (case p self of
        None \<Rightarrow> (self, None)
      | Some fig \<Rightarrow>
          run_handlers (map snd (filter (\<lambda>(n, h). n = name_of ev) (py_event_callbacks fig)))
            self ev)"

text \<open>
  The bands with a matching file under \<open>base_path\<close>, as the specification words it:
  those of VV, VH, HV and HH for which the pattern
  \<^verbatim>\<open>base_path/*/*<separator><band>.tif\<close> matches a file.
\<close>

definition present_bands :: "os_env \<Rightarrow> string \<Rightarrow> string \<Rightarrow> string list" where
  "present_bands env base_path separator =
     filter (\<lambda>band. glob env (base_path @ ''/*/*'' @ separator @ band @ ''.tif'') \<noteq> [])
       [''VV'', ''VH'', ''HV'', ''HH'']"

section \<open>Properties of the date parser and the date filter\<close>

lemma py_split_not_Nil: "py_split sep s \<noteq> []"
  by (induction s) (auto split: list.splits)

lemma py_split_no_sep: "sep \<notin> set s \<Longrightarrow> py_split sep s = [s]"
  by (induction s) auto

lemma py_split_length_one: "(length (py_split sep s) = 1) = (sep \<notin> set s)"
proof (induction s)
  case Nil
  then show ?case by simp
next
  case (Cons c cs)
  show ?case
  proof (cases "c = sep")
    case True
    then show ?thesis using py_split_not_Nil [of sep cs] by (cases "py_split sep cs") auto
  next
    case False
    then show ?thesis using Cons py_split_not_Nil [of sep cs]
      by (cases "py_split sep cs") auto
  qed
qed

lemma date_of_token_take8: "date_of_token (take 8 d) = date_of_token d"
proof -
  have a: "take 2 (drop 4 (take 8 d)) = take 2 (drop 4 d)" by (simp add: drop_take)
  have b: "take 2 (drop 6 (take 8 d)) = take 2 (drop 6 d)" by (simp add: drop_take)
  have c: "take 4 (take 8 d) = take 4 d" by simp
  show ?thesis unfolding date_of_token_def a b c ..
qed

lemma digit_not_space: "py_isdigit c \<Longrightarrow> \<not> py_isspace c"
  by (auto simp: py_isdigit_def py_isspace_def)

lemma digit_not_sign:
  "py_isdigit c \<Longrightarrow> c \<noteq> CHR ''-'' \<and> c \<noteq> CHR ''+'' \<and> c \<noteq> CHR ''_''"
  by (auto simp: py_isdigit_def)

lemma digits_grouped_all: "s \<noteq> [] \<Longrightarrow> \<forall>c\<in>set s. py_isdigit c \<Longrightarrow> digits_grouped s"
  by (induction s rule: digits_grouped.induct) (auto dest: digit_not_sign)

lemma py_strip_digits:
  assumes ne: "s \<noteq> []" and d: "\<forall>c\<in>set s. py_isdigit c"
  shows "py_strip s = s"
proof -
  from ne d have h: "\<not> py_isspace (hd s)" by (cases s) (auto dest: digit_not_space)
  from ne d have l: "\<not> py_isspace (last s)" by (auto dest: digit_not_space)
  from ne h have 1: "dropWhile py_isspace s = s" by (cases s) auto
  from ne l have 2: "dropWhile py_isspace (rev s) = rev s"
    by (cases "rev s") (auto simp: last_rev hd_rev)
  show ?thesis by (simp add: py_strip_def 1 2)
qed

text \<open>On a string of digits, \<^verbatim>\<open>int\<close> is the decimal value.\<close>

lemma py_int_digits:
  "s \<noteq> [] \<Longrightarrow> \<forall>c\<in>set s. py_isdigit c \<Longrightarrow> py_int s = Some (digits_value 0 s)"
  by (cases s) (auto simp: py_int_def py_strip_digits digits_grouped_all dest: digit_not_sign)

lemma date_of_token_digits:
  assumes "length ds = 8" and "\<forall>c\<in>set ds. py_isdigit c"
  shows "date_of_token (ds @ rest) =
           py_date (digits_value 0 (take 4 ds)) (digits_value 0 (take 2 (drop 4 ds)))
                   (digits_value 0 (drop 6 ds))"
proof -
  have y: "py_int (take 4 ds) = Some (digits_value 0 (take 4 ds))"
    using assms by (intro py_int_digits) (auto dest: in_set_takeD)
  have m: "py_int (take 2 (drop 4 ds)) = Some (digits_value 0 (take 2 (drop 4 ds)))"
    using assms by (intro py_int_digits) (auto dest!: in_set_takeD in_set_dropD)
  have d: "py_int (drop 6 ds) = Some (digits_value 0 (drop 6 ds))"
    using assms by (intro py_int_digits) (auto dest!: in_set_dropD)
  show ?thesis using assms by (simp add: date_of_token_def y m d)
qed

lemmas date_eval = date_of_token_def py_int_def py_strip_def py_isspace_def py_isdigit_def
  digit_val_def py_date_def days_in_month_def is_leap_def

lemmas name_eval = get_aquisition_date_from_product_name_def dict_get_def py_index_def date_eval

lemma underscore_example:
  "get_aquisition_date_from_product_name [(''name'', ''S1A_IW_GRDH_1SDV_20200615T'' @ rest)]
     = Inr \<lparr>year = 2020, month = 6, day = 15\<rparr>"
proof -
  obtain t ts where s: "py_split CHR ''_'' rest = t # ts"
    using py_split_not_Nil [of "CHR ''_''" rest] by (cases "py_split CHR ''_'' rest") auto
  show ?thesis
    unfolding get_aquisition_date_from_product_name_def dict_get_def
    by (simp add: s py_index_def date_eval)
qed

lemma hyphen_example:
  assumes "CHR ''_'' \<notin> set rest"
  shows "get_aquisition_date_from_product_name [(''name'', ''RS2-20200615-'' @ rest)]
     = Inr \<lparr>year = 2020, month = 6, day = 15\<rparr>"
proof -
  have one: "py_split CHR ''_'' rest = [rest]"
    using assms by (rule py_split_no_sep)
  obtain t ts where s: "py_split CHR ''-'' rest = t # ts"
    using py_split_not_Nil [of "CHR ''-''" rest] by (cases "py_split CHR ''-'' rest") auto
  show ?thesis
    unfolding get_aquisition_date_from_product_name_def dict_get_def
    by (simp add: one s py_index_def date_eval)
qed

text \<open>
  Claim C2. Where the name of a product splits on \<open>_\<close> into a single token, the date is
  read from the second token of the split on \<open>-\<close>; where it splits into more, from
  the fifth token of the split on \<open>_\<close>; a missing token is an \<^verbatim>\<open>IndexError\<close>. Only
  the first eight characters of the token are read, and where they are digits the date
  is the one they spell as YYYYMMDD. A name that starts
  \<^verbatim>\<open>S1A_IW_GRDH_1SDV_20200615T\<close> and a name \<^verbatim>\<open>RS2-20200615-...\<close> without
  underscore both give 2020-06-15.
\<close>

theorem acquisition_date_parsing:
  "(dict_get product_info ''name'' = Inr product_name \<and>
      length (py_split CHR ''_'' product_name) = 1 \<longrightarrow>
    get_aquisition_date_from_product_name product_info =
      (case py_split CHR ''-'' product_name of
         _ # d # _ \<Rightarrow> date_of_token (take 8 d)
       | _ \<Rightarrow> Inl IndexError))
   \<and> (dict_get product_info ''name'' = Inr product_name \<and>
      length (py_split CHR ''_'' product_name) > 1 \<longrightarrow>
    get_aquisition_date_from_product_name product_info =
      (case py_split CHR ''_'' product_name of
         _ # _ # _ # _ # d # _ \<Rightarrow> date_of_token (take 8 d)
       | _ \<Rightarrow> Inl IndexError))
   \<and> (length ds = 8 \<and> (\<forall>c\<in>set ds. py_isdigit c) \<longrightarrow>
      date_of_token (ds @ rest) =
        py_date (digits_value 0 (take 4 ds)) (digits_value 0 (take 2 (drop 4 ds)))
                (digits_value 0 (drop 6 ds)))
   \<and> get_aquisition_date_from_product_name [(''name'', ''S1A_IW_GRDH_1SDV_20200615T'' @ rest1)]
        = Inr \<lparr>year = 2020, month = 6, day = 15\<rparr>
   \<and> (CHR ''_'' \<notin> set rest2 \<longrightarrow>
      get_aquisition_date_from_product_name [(''name'', ''RS2-20200615-'' @ rest2)]
        = Inr \<lparr>year = 2020, month = 6, day = 15\<rparr>)"
proof (intro conjI impI)
  assume a: "dict_get product_info ''name'' = Inr product_name \<and>
      length (py_split CHR ''_'' product_name) = 1"
  then show "get_aquisition_date_from_product_name product_info =
      (case py_split CHR ''-'' product_name of
         _ # d # _ \<Rightarrow> date_of_token (take 8 d)
       | _ \<Rightarrow> Inl IndexError)"
    by (simp add: get_aquisition_date_from_product_name_def py_index_def date_of_token_take8
          split: list.splits)
next
  assume a: "dict_get product_info ''name'' = Inr product_name \<and>
      length (py_split CHR ''_'' product_name) > 1"
  then show "get_aquisition_date_from_product_name product_info =
      (case py_split CHR ''_'' product_name of
         _ # _ # _ # _ # d # _ \<Rightarrow> date_of_token (take 8 d)
       | _ \<Rightarrow> Inl IndexError)"
    by (simp add: get_aquisition_date_from_product_name_def py_index_def date_of_token_take8
          split: list.splits)
next
  assume "length ds = 8 \<and> (\<forall>c\<in>set ds. py_isdigit c)"
  then show "date_of_token (ds @ rest) =
        py_date (digits_value 0 (take 4 ds)) (digits_value 0 (take 2 (drop 4 ds)))
                (digits_value 0 (drop 6 ds))"
    by (simp add: date_of_token_digits)
next
  show "get_aquisition_date_from_product_name [(''name'', ''S1A_IW_GRDH_1SDV_20200615T'' @ rest1)]
        = Inr \<lparr>year = 2020, month = 6, day = 15\<rparr>"
    by (rule underscore_example)
next
  assume "CHR ''_'' \<notin> set rest2"
  then show "get_aquisition_date_from_product_name [(''name'', ''RS2-20200615-'' @ rest2)]
        = Inr \<lparr>year = 2020, month = 6, day = 15\<rparr>"
    by (rule hyphen_example)
qed

theorem acquisition_date_parsing_witness:
  "dict_get [(''name'', ''RS2-20200615-144500'')] ''name'' = Inr ''RS2-20200615-144500''
   \<and> length (py_split CHR ''_'' ''RS2-20200615-144500'') = 1
   \<and> py_split CHR ''-'' ''RS2-20200615-144500'' = [''RS2'', ''20200615'', ''144500'']
   \<and> get_aquisition_date_from_product_name [(''name'', ''RS2-20200615-144500'')]
        = Inr \<lparr>year = 2020, month = 6, day = 15\<rparr>
   \<and> dict_get [(''name'', ''S1A_IW_GRDH_1SDV_20200615T030405'')] ''name''
        = Inr ''S1A_IW_GRDH_1SDV_20200615T030405''
   \<and> 1 < length (py_split CHR ''_'' ''S1A_IW_GRDH_1SDV_20200615T030405'')
   \<and> get_aquisition_date_from_product_name [(''name'', ''S1A_IW_GRDH_1SDV_20200615T030405'')]
        = Inr \<lparr>year = 2020, month = 6, day = 15\<rparr>
   \<and> length ''20200615'' = 8
   \<and> list_all py_isdigit ''20200615''
   \<and> date_of_token (''20200615'' @ ''T030405'') = Inr \<lparr>year = 2020, month = 6, day = 15\<rparr>
   \<and> CHR ''_'' \<notin> set ''144500''"
  using acquisition_date_parsing
    [of "[(''name'', ''RS2-20200615-144500'')]" "''RS2-20200615-144500''" "''20200615''"
        "''T030405''" "[]" "''144500''"]
    acquisition_date_parsing
    [of "[(''name'', ''S1A_IW_GRDH_1SDV_20200615T030405'')]" "''S1A_IW_GRDH_1SDV_20200615T030405''"
        "''20200615''" "[]" "[]" "[]"]
  by (simp add: dict_get_def date_eval)

lemma filter_date_loop_filter:
  "\<forall>p\<in>set ps. \<exists>d. get_aquisition_date_from_product_name p = Inr d \<Longrightarrow>
   filter_date_loop ps s e acc = Inr (acc @ filter (acquired_in s e) ps)"
proof (induction ps arbitrary: acc)
  case Nil
  then show ?case by simp
next
  case (Cons p ps)
  then obtain d where d: "get_aquisition_date_from_product_name p = Inr d" by auto
  from Cons have rest: "\<And>acc. filter_date_loop ps s e acc = Inr (acc @ filter (acquired_in s e) ps)"
    by simp
  have here: "acquired_in s e p = (date_le s d \<and> date_lt d e)"
    by (simp add: acquired_in_def d)
  show ?case by (simp add: d rest here)
qed

text \<open>
  Claim C1, amended. For every product list that is not empty and whose names parse to
  acquisition dates, \<^verbatim>\<open>filter_date_range\<close> returns exactly the products whose date
  \<open>d\<close> satisfies \<open>s \<le> d\<close> and \<open>d < e\<close>, in their order; for products dated 2020-01-01,
  2020-06-15 and 2020-12-31 and the range from 2020-01-01 to 2020-12-31 it returns the
  first two.
\<close>

theorem filter_date_range_exact:
  "(product_list \<noteq> [] \<and>
      (\<forall>p\<in>set product_list. \<exists>d. get_aquisition_date_from_product_name p = Inr d) \<longrightarrow>
    filter_date_range product_list s e = Inr (filter (acquired_in s e) product_list))
   \<and> (get_aquisition_date_from_product_name p1 = Inr \<lparr>year = 2020, month = 1, day = 1\<rparr> \<and>
       get_aquisition_date_from_product_name p2 = Inr \<lparr>year = 2020, month = 6, day = 15\<rparr> \<and>
       get_aquisition_date_from_product_name p3 = Inr \<lparr>year = 2020, month = 12, day = 31\<rparr> \<longrightarrow>
    filter_date_range [p1, p2, p3] \<lparr>year = 2020, month = 1, day = 1\<rparr>
        \<lparr>year = 2020, month = 12, day = 31\<rparr> = Inr [p1, p2])"
proof (intro conjI impI)
  assume "product_list \<noteq> [] \<and>
      (\<forall>p\<in>set product_list. \<exists>d. get_aquisition_date_from_product_name p = Inr d)"
  then show "filter_date_range product_list s e = Inr (filter (acquired_in s e) product_list)"
    by (simp add: filter_date_range_def filter_date_loop_filter)
next
  assume "get_aquisition_date_from_product_name p1 = Inr \<lparr>year = 2020, month = 1, day = 1\<rparr> \<and>
       get_aquisition_date_from_product_name p2 = Inr \<lparr>year = 2020, month = 6, day = 15\<rparr> \<and>
       get_aquisition_date_from_product_name p3 = Inr \<lparr>year = 2020, month = 12, day = 31\<rparr>"
  then show "filter_date_range [p1, p2, p3] \<lparr>year = 2020, month = 1, day = 1\<rparr>
        \<lparr>year = 2020, month = 12, day = 31\<rparr> = Inr [p1, p2]"
    by (simp add: filter_date_range_def date_le_def date_lt_def)
qed

theorem filter_date_range_exact_witness:
  "[[(''name'', ''S1A_IW_GRDH_1SDV_20200101T'')], [(''name'', ''RS2-20200615-1'')],
      [(''name'', ''S1B_IW_GRDH_1SDV_20201231T'')]] \<noteq> []
   \<and> get_aquisition_date_from_product_name [(''name'', ''S1A_IW_GRDH_1SDV_20200101T'')]
        = Inr \<lparr>year = 2020, month = 1, day = 1\<rparr>
   \<and> get_aquisition_date_from_product_name [(''name'', ''RS2-20200615-1'')]
        = Inr \<lparr>year = 2020, month = 6, day = 15\<rparr>
   \<and> get_aquisition_date_from_product_name [(''name'', ''S1B_IW_GRDH_1SDV_20201231T'')]
        = Inr \<lparr>year = 2020, month = 12, day = 31\<rparr>
   \<and> filter_date_range
        [[(''name'', ''S1A_IW_GRDH_1SDV_20200101T'')], [(''name'', ''RS2-20200615-1'')],
         [(''name'', ''S1B_IW_GRDH_1SDV_20201231T'')]]
        \<lparr>year = 2020, month = 1, day = 1\<rparr> \<lparr>year = 2020, month = 12, day = 31\<rparr>
      = Inr [[(''name'', ''S1A_IW_GRDH_1SDV_20200101T'')], [(''name'', ''RS2-20200615-1'')]]
   \<and> filter (acquired_in \<lparr>year = 2020, month = 1, day = 1\<rparr> \<lparr>year = 2020, month = 12, day = 31\<rparr>)
        [[(''name'', ''S1A_IW_GRDH_1SDV_20200101T'')], [(''name'', ''RS2-20200615-1'')],
         [(''name'', ''S1B_IW_GRDH_1SDV_20201231T'')]]
      = [[(''name'', ''S1A_IW_GRDH_1SDV_20200101T'')], [(''name'', ''RS2-20200615-1'')]]"
proof -
  have a: "get_aquisition_date_from_product_name [(''name'', ''S1A_IW_GRDH_1SDV_20200101T'')]
        = Inr \<lparr>year = 2020, month = 1, day = 1\<rparr>"
    by (simp add: name_eval)
  have b: "get_aquisition_date_from_product_name [(''name'', ''RS2-20200615-1'')]
        = Inr \<lparr>year = 2020, month = 6, day = 15\<rparr>"
    by (simp add: name_eval)
  have c: "get_aquisition_date_from_product_name [(''name'', ''S1B_IW_GRDH_1SDV_20201231T'')]
        = Inr \<lparr>year = 2020, month = 12, day = 31\<rparr>"
    by (simp add: name_eval)
  show ?thesis
    using filter_date_range_exact
      [of "[[(''name'', ''S1A_IW_GRDH_1SDV_20200101T'')], [(''name'', ''RS2-20200615-1'')],
            [(''name'', ''S1B_IW_GRDH_1SDV_20201231T'')]]"
          "\<lparr>year = 2020, month = 1, day = 1\<rparr>" "\<lparr>year = 2020, month = 12, day = 31\<rparr>"
          "[(''name'', ''S1A_IW_GRDH_1SDV_20200101T'')]" "[(''name'', ''RS2-20200615-1'')]"
          "[(''name'', ''S1B_IW_GRDH_1SDV_20201231T'')]"]
    by (simp add: a b c acquired_in_def date_le_def date_lt_def)
qed

text \<open>
  The claim as the specification states it, for every product list, fails on the empty
  list: the assertion on the length raises, and no list is returned.
\<close>

theorem filter_date_range_empty_counterexample:
  "filter_date_range [] \<lparr>year = 2020, month = 1, day = 1\<rparr> \<lparr>year = 2020, month = 12, day = 31\<rparr>
     = Inl (AssertionError
         ''Error: product_list must contain at least one product_info dictionary.'')
   \<and> filter_date_range [] \<lparr>year = 2020, month = 1, day = 1\<rparr> \<lparr>year = 2020, month = 12, day = 31\<rparr>
     \<noteq> Inr (filter (acquired_in \<lparr>year = 2020, month = 1, day = 1\<rparr>
                      \<lparr>year = 2020, month = 12, day = 31\<rparr>) [])"
  by (simp add: filter_date_range_def)

text \<open>
  Claim C3. \<^verbatim>\<open>flight_direction_valid\<close> returns \<^verbatim>\<open>True\<close> exactly on the six
  strings A, ASC, ASCENDING, D, DESC and DESCENDING, letter case included; it rejects
  \<^verbatim>\<open>asc\<close> and \<^verbatim>\<open>East\<close>.
\<close>

theorem flight_direction_valid_exact:
  "snd (flight_direction_valid s)
     = (s \<in> {''A'', ''ASC'', ''ASCENDING'', ''D'', ''DESC'', ''DESCENDING''})
   \<and> snd (flight_direction_valid ''asc'') = False
   \<and> snd (flight_direction_valid ''East'') = False"
  by (simp add: flight_direction_valid_def valid_directions_def)

section \<open>Properties of the product filter and the subscription client\<close>

text \<open>
  Claim C10. On a product list that is not empty, \<^verbatim>\<open>product_filter\<close> with both
  \<^verbatim>\<open>flight_direction\<close> and \<^verbatim>\<open>path\<close> absent prints nothing, sends no request and
  returns \<^verbatim>\<open>None\<close>, not the list; whenever it returns a list, one of the two
  filters was given.
\<close>

theorem product_filter_without_filters:
  "(product_list \<noteq> [] \<longrightarrow>
      product_filter net product_list None None = ([], Inr None))
   \<and> (snd (product_filter net product_list flight_direction path) = Inr (Some l) \<longrightarrow>
      flight_direction \<noteq> None \<or> path \<noteq> None)"
proof (intro conjI impI)
  assume "product_list \<noteq> []"
  then show "product_filter net product_list None None = ([], Inr None)"
    by (simp add: product_filter_def truthy_str_def truthy_int_def)
next
  assume r: "snd (product_filter net product_list flight_direction path) = Inr (Some l)"
  show "flight_direction \<noteq> None \<or> path \<noteq> None"
  proof (rule ccontr)
    assume "\<not> (flight_direction \<noteq> None \<or> path \<noteq> None)"
    then have "flight_direction = None" "path = None" by auto
    with r show False
      by (simp add: product_filter_def truthy_str_def truthy_int_def split: if_splits)
  qed
qed

theorem product_filter_without_filters_witness:
  "[[(''name'', ''S1A-x'')]] \<noteq> []
   \<and> product_filter \<lparr>vertex_post = (\<lambda>ps. Inr \<lparr>json = Inr [[[(''granuleName'', ''S1A'')]]]\<rparr>),
                      post_stream = (\<lambda>u. Inl ''unreachable'')\<rparr>
        [[(''name'', ''S1A-x'')]] None None = ([], Inr None)
   \<and> snd (product_filter \<lparr>vertex_post = (\<lambda>ps. Inr \<lparr>json = Inr [[[(''granuleName'', ''S1A'')]]]\<rparr>),
                      post_stream = (\<lambda>u. Inl ''unreachable'')\<rparr>
        [[(''name'', ''S1A-x'')]] (Some ''A'') None) = Inr (Some [[(''name'', ''S1A-x'')]])"
  using product_filter_without_filters
    [of "[[(''name'', ''S1A-x'')]]"
        "\<lparr>vertex_post = (\<lambda>ps. Inr \<lparr>json = Inr [[[(''granuleName'', ''S1A'')]]]\<rparr>),
          post_stream = (\<lambda>u. Inl ''unreachable'')\<rparr>"
        "Some ''A''" None "[[(''name'', ''S1A-x'')]]"]
  by (simp add: product_filter_def truthy_str_def truthy_int_def dict_get_def py_index_def)

text \<open>
  Claim C4. The claim has \<^verbatim>\<open>get_hyp3_subscriptions\<close> return \<^verbatim>\<open>None\<close> when the
  account has no enabled subscription, as the docstring of the function says. The
  source prints the message and returns what the API returned: for the empty list the
  empty list, which is not \<^verbatim>\<open>None\<close>.
\<close>

theorem get_hyp3_subscriptions_returns_api_value:
  "snd (get_hyp3_subscriptions (Inr subscriptions)) = Inr subscriptions
   \<and> get_hyp3_subscriptions (Inr (Some []))
       = ([''There are no subscriptions associated with this Hyp3 account.''], Inr (Some []))
   \<and> snd (get_hyp3_subscriptions (Inr (Some []))) \<noteq> Inr None"
  by (simp add: get_hyp3_subscriptions_def)

section \<open>Properties of the granule download\<close>

lemma write_chunks_complete:
  "total_length \<noteq> 0 \<or> concat cs = [] \<Longrightarrow>
   write_chunks total_length cs written = (written @ concat cs, None)"
  by (induction cs arbitrary: written) auto

lemma download_complete:
  assumes "declared_length r = Inr total_length"
    and "total_length \<noteq> 0 \<or> concat (chunks r) = []"
  shows "download filename r fs = (fs(filename \<mapsto> concat (chunks r)), None)"
  using assms by (simp add: download_def write_chunks_complete)

text \<open>The one way the loop of \<^verbatim>\<open>download\<close> fails: a body for a declared length of 0.\<close>

lemma download_zero_length:
  "declared_length r = Inr 0 \<Longrightarrow> chunks r = chunk # rest \<Longrightarrow> chunk \<noteq> [] \<Longrightarrow>
   download filename r fs = (fs(filename \<mapsto> chunk), Some ZeroDivisionError)"
  by (simp add: download_def)

text \<open>
  Where the lookup has resolved the granule, the request has answered and declares a
  content length, and the loop of \<^verbatim>\<open>download\<close> runs to its end: if the local
  file exists with exactly the declared size, \<^verbatim>\<open>download_ASF_granule\<close> leaves the
  file system as it is and returns the file name; otherwise it writes the body to the
  file, and returns \<^verbatim>\<open>None\<close> after \<^verbatim>\<open>Download failed!\<close> if the file is then
  smaller than the declared length, the file name otherwise.
\<close>

lemma download_ASF_granule_outcomes:
  "get_vertex_granule_info net granule_name processing_level = (out, Inr (Some vertex_info))
   \<and> dict_get vertex_info ''downloadUrl'' = Inr url
   \<and> dict_get vertex_info ''fileName'' = Inr local_filename
   \<and> post_stream net url = Inr r
   \<and> declared_length r = Inr total_length
   \<and> (total_length \<noteq> 0 \<or> concat (chunks r) = [])
   \<longrightarrow>
   download_ASF_granule net fs granule_name processing_level =
     (if st_size fs local_filename = Inr total_length
      then (out @ [local_filename @ '' is already present in current working directory.''],
            fs, Inr (Some local_filename))
      else if int (length (concat (chunks r))) < total_length
      then (out @ [''Downloading '' @ url, [CHR 0x0A] @ ''Download failed!'' @ [CHR 0x0A]],
            fs(local_filename \<mapsto> concat (chunks r)), Inr None)
      else (out @ [''Downloading '' @ url, [CHR 0x0A] @ ''Done'' @ [CHR 0x0A]],
            fs(local_filename \<mapsto> concat (chunks r)), Inr (Some local_filename)))"
proof (intro impI)
  assume a: "get_vertex_granule_info net granule_name processing_level = (out, Inr (Some vertex_info))
   \<and> dict_get vertex_info ''downloadUrl'' = Inr url
   \<and> dict_get vertex_info ''fileName'' = Inr local_filename
   \<and> post_stream net url = Inr r
   \<and> declared_length r = Inr total_length
   \<and> (total_length \<noteq> 0 \<or> concat (chunks r) = [])"
  then have d: "download local_filename r fs = (fs(local_filename \<mapsto> concat (chunks r)), None)"
    by (simp add: download_complete)
  have e: "(fs local_filename \<noteq> None \<and> st_size fs local_filename = Inr total_length)
             = (st_size fs local_filename = Inr total_length)"
    by (auto simp: st_size_def split: option.splits)
  show "download_ASF_granule net fs granule_name processing_level =
     (if st_size fs local_filename = Inr total_length
      then (out @ [local_filename @ '' is already present in current working directory.''],
            fs, Inr (Some local_filename))
      else if int (length (concat (chunks r))) < total_length
      then (out @ [''Downloading '' @ url, [CHR 0x0A] @ ''Download failed!'' @ [CHR 0x0A]],
            fs(local_filename \<mapsto> concat (chunks r)), Inr None)
      else (out @ [''Downloading '' @ url, [CHR 0x0A] @ ''Done'' @ [CHR 0x0A]],
            fs(local_filename \<mapsto> concat (chunks r)), Inr (Some local_filename)))"
    using a unfolding download_ASF_granule_def e
    by (simp add: d st_size_def)
qed

lemma download_ASF_granule_outcomes_witness:
  "get_vertex_granule_info
      \<lparr>vertex_post = (\<lambda>ps. Inr \<lparr>json = Inr [[[(''downloadUrl'', ''u''), (''fileName'', ''g.zip'')]]]\<rparr>),
       post_stream = (\<lambda>u. Inr \<lparr>content_length = Some ''4'', chunks = [''ab'', ''cd'']\<rparr>)\<rparr>
      ''g'' ''GRD_HD''
     = ([], Inr (Some [(''downloadUrl'', ''u''), (''fileName'', ''g.zip'')]))
   \<and> dict_get [(''downloadUrl'', ''u''), (''fileName'', ''g.zip'')] ''downloadUrl'' = Inr ''u''
   \<and> dict_get [(''downloadUrl'', ''u''), (''fileName'', ''g.zip'')] ''fileName'' = Inr ''g.zip''
   \<and> declared_length \<lparr>content_length = Some ''4'', chunks = [''ab'', ''cd'']\<rparr> = Inr 4
   \<and> snd (snd (download_ASF_granule
      \<lparr>vertex_post = (\<lambda>ps. Inr \<lparr>json = Inr [[[(''downloadUrl'', ''u''), (''fileName'', ''g.zip'')]]]\<rparr>),
       post_stream = (\<lambda>u. Inr \<lparr>content_length = Some ''4'', chunks = [''ab'', ''cd'']\<rparr>)\<rparr>
      (\<lambda>f. None) ''g'' ''GRD_HD'')) = Inr (Some ''g.zip'')
   \<and> fst (snd (download_ASF_granule
      \<lparr>vertex_post = (\<lambda>ps. Inr \<lparr>json = Inr [[[(''downloadUrl'', ''u''), (''fileName'', ''g.zip'')]]]\<rparr>),
       post_stream = (\<lambda>u. Inr \<lparr>content_length = Some ''4'', chunks = [''ab'', ''cd'']\<rparr>)\<rparr>
      (\<lambda>f. None) ''g'' ''GRD_HD'')) ''g.zip'' = Some ''abcd''
   \<and> download_ASF_granule
      \<lparr>vertex_post = (\<lambda>ps. Inr \<lparr>json = Inr [[[(''downloadUrl'', ''u''), (''fileName'', ''g.zip'')]]]\<rparr>),
       post_stream = (\<lambda>u. Inr \<lparr>content_length = Some ''4'', chunks = [''ab'', ''cd'']\<rparr>)\<rparr>
      (\<lambda>f. if f = ''g.zip'' then Some ''wxyz'' else None) ''g'' ''GRD_HD''
     = ([''g.zip is already present in current working directory.''],
        (\<lambda>f. if f = ''g.zip'' then Some ''wxyz'' else None), Inr (Some ''g.zip''))
   \<and> snd (snd (download_ASF_granule
      \<lparr>vertex_post = (\<lambda>ps. Inr \<lparr>json = Inr [[[(''downloadUrl'', ''u''), (''fileName'', ''g.zip'')]]]\<rparr>),
       post_stream = (\<lambda>u. Inr \<lparr>content_length = Some ''4'', chunks = [''ab'', ''cd'']\<rparr>)\<rparr>
      (\<lambda>f. if f = ''g.zip'' then Some ''wxyzw'' else None) ''g'' ''GRD_HD'')) = Inr (Some ''g.zip'')
   \<and> declared_length \<lparr>content_length = Some ''10'', chunks = [''ab'', ''cd'']\<rparr> = Inr 10
   \<and> snd (snd (download_ASF_granule
      \<lparr>vertex_post = (\<lambda>ps. Inr \<lparr>json = Inr [[[(''downloadUrl'', ''u''), (''fileName'', ''g.zip'')]]]\<rparr>),
       post_stream = (\<lambda>u. Inr \<lparr>content_length = Some ''10'', chunks = [''ab'', ''cd'']\<rparr>)\<rparr>
      (\<lambda>f. None) ''g'' ''GRD_HD'')) = Inr None"
  using download_ASF_granule_outcomes
    [of "\<lparr>vertex_post = (\<lambda>ps. Inr \<lparr>json = Inr [[[(''downloadUrl'', ''u''), (''fileName'', ''g.zip'')]]]\<rparr>),
          post_stream = (\<lambda>u. Inr \<lparr>content_length = Some ''4'', chunks = [''ab'', ''cd'']\<rparr>)\<rparr>"
        "''g''" "''GRD_HD''" "[]" "[(''downloadUrl'', ''u''), (''fileName'', ''g.zip'')]"
        "''u''" "''g.zip''" "\<lparr>content_length = Some ''4'', chunks = [''ab'', ''cd'']\<rparr>" 4
        "\<lambda>f. None"]
    download_ASF_granule_outcomes
    [of "\<lparr>vertex_post = (\<lambda>ps. Inr \<lparr>json = Inr [[[(''downloadUrl'', ''u''), (''fileName'', ''g.zip'')]]]\<rparr>),
          post_stream = (\<lambda>u. Inr \<lparr>content_length = Some ''4'', chunks = [''ab'', ''cd'']\<rparr>)\<rparr>"
        "''g''" "''GRD_HD''" "[]" "[(''downloadUrl'', ''u''), (''fileName'', ''g.zip'')]"
        "''u''" "''g.zip''" "\<lparr>content_length = Some ''4'', chunks = [''ab'', ''cd'']\<rparr>" 4
        "\<lambda>f. if f = ''g.zip'' then Some ''wxyz'' else None"]
    download_ASF_granule_outcomes
    [of "\<lparr>vertex_post = (\<lambda>ps. Inr \<lparr>json = Inr [[[(''downloadUrl'', ''u''), (''fileName'', ''g.zip'')]]]\<rparr>),
          post_stream = (\<lambda>u. Inr \<lparr>content_length = Some ''4'', chunks = [''ab'', ''cd'']\<rparr>)\<rparr>"
        "''g''" "''GRD_HD''" "[]" "[(''downloadUrl'', ''u''), (''fileName'', ''g.zip'')]"
        "''u''" "''g.zip''" "\<lparr>content_length = Some ''4'', chunks = [''ab'', ''cd'']\<rparr>" 4
        "\<lambda>f. if f = ''g.zip'' then Some ''wxyzw'' else None"]
    download_ASF_granule_outcomes
    [of "\<lparr>vertex_post = (\<lambda>ps. Inr \<lparr>json = Inr [[[(''downloadUrl'', ''u''), (''fileName'', ''g.zip'')]]]\<rparr>),
          post_stream = (\<lambda>u. Inr \<lparr>content_length = Some ''10'', chunks = [''ab'', ''cd'']\<rparr>)\<rparr>"
        "''g''" "''GRD_HD''" "[]" "[(''downloadUrl'', ''u''), (''fileName'', ''g.zip'')]"
        "''u''" "''g.zip''" "\<lparr>content_length = Some ''10'', chunks = [''ab'', ''cd'']\<rparr>" 10
        "\<lambda>f. None"]
  by (simp add: get_vertex_granule_info_def py_index_def dict_get_def declared_length_def
        st_size_def py_int_def py_strip_def py_isspace_def py_isdigit_def digit_val_def)

text \<open>
  Claim C5. The claim has \<^verbatim>\<open>download_ASF_granule\<close> return the file name whenever
  the file is not smaller than the declared content length after the download. For a
  declared length of 0 and a body that is not empty the source does not: there is no
  local file, so it downloads; \<^verbatim>\<open>download\<close> writes the first chunk and then its
  progress bar divides by the declared length. The \<^verbatim>\<open>ZeroDivisionError\<close> leaves
  \<^verbatim>\<open>download_ASF_granule\<close> after \<^verbatim>\<open>Downloading ...\<close> has been printed, with two
  bytes in the file, which is not smaller than 0, and no file name is returned.
\<close>

theorem download_ASF_granule_zero_length_raises:
  "get_vertex_granule_info
      \<lparr>vertex_post = (\<lambda>ps. Inr \<lparr>json = Inr [[[(''downloadUrl'', ''u''), (''fileName'', ''g.zip'')]]]\<rparr>),
       post_stream = (\<lambda>u. Inr \<lparr>content_length = Some ''0'', chunks = [''ab'']\<rparr>)\<rparr>
      ''g'' ''GRD_HD''
     = ([], Inr (Some [(''downloadUrl'', ''u''), (''fileName'', ''g.zip'')]))
   \<and> declared_length \<lparr>content_length = Some ''0'', chunks = [''ab'']\<rparr> = Inr 0
   \<and> st_size (\<lambda>f. None) ''g.zip'' = Inl FileNotFoundError
   \<and> fst (download_ASF_granule
      \<lparr>vertex_post = (\<lambda>ps. Inr \<lparr>json = Inr [[[(''downloadUrl'', ''u''), (''fileName'', ''g.zip'')]]]\<rparr>),
       post_stream = (\<lambda>u. Inr \<lparr>content_length = Some ''0'', chunks = [''ab'']\<rparr>)\<rparr>
      (\<lambda>f. None) ''g'' ''GRD_HD'') = [''Downloading u'']
   \<and> st_size (fst (snd (download_ASF_granule
      \<lparr>vertex_post = (\<lambda>ps. Inr \<lparr>json = Inr [[[(''downloadUrl'', ''u''), (''fileName'', ''g.zip'')]]]\<rparr>),
       post_stream = (\<lambda>u. Inr \<lparr>content_length = Some ''0'', chunks = [''ab'']\<rparr>)\<rparr>
      (\<lambda>f. None) ''g'' ''GRD_HD''))) ''g.zip'' = Inr 2
   \<and> snd (snd (download_ASF_granule
      \<lparr>vertex_post = (\<lambda>ps. Inr \<lparr>json = Inr [[[(''downloadUrl'', ''u''), (''fileName'', ''g.zip'')]]]\<rparr>),
       post_stream = (\<lambda>u. Inr \<lparr>content_length = Some ''0'', chunks = [''ab'']\<rparr>)\<rparr>
      (\<lambda>f. None) ''g'' ''GRD_HD'')) = Inl ZeroDivisionError
   \<and> snd (snd (download_ASF_granule
      \<lparr>vertex_post = (\<lambda>ps. Inr \<lparr>json = Inr [[[(''downloadUrl'', ''u''), (''fileName'', ''g.zip'')]]]\<rparr>),
       post_stream = (\<lambda>u. Inr \<lparr>content_length = Some ''0'', chunks = [''ab'']\<rparr>)\<rparr>
      (\<lambda>f. None) ''g'' ''GRD_HD'')) \<noteq> Inr (Some ''g.zip'')"
  by (simp add: download_ASF_granule_def download_def get_vertex_granule_info_def py_index_def
        dict_get_def declared_length_def st_size_def py_int_def py_strip_def py_isspace_def
        py_isdigit_def digit_val_def)

section \<open>Properties of the polarization selector\<close>

lemma found_polarizations_bands:
  "found_polarizations env base_path separator
     = map (\<lambda>band. separator @ band) (present_bands env base_path separator)"
  by (simp add: found_polarizations_def present_bands_def polarization_exists_def)

text \<open>
  Claim C9, amended. With process type 2 (separator \<open>_\<close>) or 18 (separator \<open>-\<close>)
  and a base path that exists: if exactly one of the bands VV, VH, HV, HH has a matching
  file, \<^verbatim>\<open>select_RTC_polarization\<close> returns the wildcard path of that band, prints
  only that it selected it and reads no input; if none has, it prints the error and
  returns \<^verbatim>\<open>None\<close>.
\<close>

theorem select_RTC_polarization_single_or_none:
  "((process_type = 2 \<and> separator = ''_'') \<or> (process_type = 18 \<and> separator = ''-''))
   \<and> os_path_exists env base_path \<longrightarrow>
     (present_bands env base_path separator = [band] \<longrightarrow>
        select_RTC_polarization env stdin process_type base_path
          = ([''Selecting the only available polarization: '' @ separator @ band], stdin,
             Inr (Some (base_path @ ''/*/*'' @ separator @ band @ ''.tif''))))
     \<and> (present_bands env base_path separator = [] \<longrightarrow>
        select_RTC_polarization env stdin process_type base_path
          = ([''Error: found no available polarizations.''], stdin, Inr None))"
  by (auto simp: select_RTC_polarization_def found_polarizations_bands Let_def)

theorem select_RTC_polarization_witness:
  "os_path_exists \<lparr>os_path_exists = (\<lambda>q. q = ''rtc''),
                   glob = (\<lambda>q. if q = ''rtc/*/*_VH.tif'' then [''rtc/a/g_VH.tif''] else [])\<rparr> ''rtc''
   \<and> present_bands \<lparr>os_path_exists = (\<lambda>q. q = ''rtc''),
                   glob = (\<lambda>q. if q = ''rtc/*/*_VH.tif'' then [''rtc/a/g_VH.tif''] else [])\<rparr>
        ''rtc'' ''_'' = [''VH'']
   \<and> select_RTC_polarization \<lparr>os_path_exists = (\<lambda>q. q = ''rtc''),
                   glob = (\<lambda>q. if q = ''rtc/*/*_VH.tif'' then [''rtc/a/g_VH.tif''] else [])\<rparr>
        [''1''] 2 ''rtc''
       = ([''Selecting the only available polarization: _VH''], [''1''],
          Inr (Some ''rtc/*/*_VH.tif''))
   \<and> present_bands \<lparr>os_path_exists = (\<lambda>q. q = ''rtc''), glob = (\<lambda>q. [])\<rparr> ''rtc'' ''-'' = []
   \<and> select_RTC_polarization \<lparr>os_path_exists = (\<lambda>q. q = ''rtc''), glob = (\<lambda>q. [])\<rparr>
        [''1''] 18 ''rtc''
       = ([''Error: found no available polarizations.''], [''1''], Inr None)"
  using select_RTC_polarization_single_or_none
    [of 2 "''_''" "\<lparr>os_path_exists = (\<lambda>q. q = ''rtc''),
                   glob = (\<lambda>q. if q = ''rtc/*/*_VH.tif'' then [''rtc/a/g_VH.tif''] else [])\<rparr>"
        "''rtc''" "''VH''" "[''1'']"]
    select_RTC_polarization_single_or_none
    [of 18 "''-''" "\<lparr>os_path_exists = (\<lambda>q. q = ''rtc''), glob = (\<lambda>q. [])\<rparr>"
        "''rtc''" "''VH''" "[''1'']"]
  by (simp add: present_bands_def)

text \<open>
  The claim as the specification states it fails where the base path does not exist:
  no band has a matching file, and the assertion on the path raises instead of the
  error being printed and \<^verbatim>\<open>None\<close> returned.
\<close>

theorem select_RTC_polarization_missing_path_counterexample:
  "present_bands \<lparr>os_path_exists = (\<lambda>q. False), glob = (\<lambda>q. [])\<rparr> ''rtc'' ''_'' = []
   \<and> select_RTC_polarization \<lparr>os_path_exists = (\<lambda>q. False), glob = (\<lambda>q. [])\<rparr> [] 2 ''rtc''
       = ([], [], Inl (AssertionError
            ''Error: select_RTC_polarization was passed an invalid base_path, rtc''))
   \<and> select_RTC_polarization \<lparr>os_path_exists = (\<lambda>q. False), glob = (\<lambda>q. [])\<rparr> [] 2 ''rtc''
       \<noteq> ([''Error: found no available polarizations.''], [], Inr None)"
  by (simp add: select_RTC_polarization_def present_bands_def)

section \<open>Properties of the area-of-interest widget\<close>

lemma py_lt_not_NaN: "py_lt a b \<Longrightarrow> a \<noteq> NaN \<and> b \<noteq> NaN"
  by (cases a; cases b) auto

lemma in_extent_iff:
  "c \<noteq> NaN \<Longrightarrow> in_extent b c = (\<not> py_lt c (Num (- b)) \<and> \<not> py_gt c (Num b))"
  by (cases c) (auto simp: in_extent_def py_gt_def)

lemma coord_error_iff:
  "coord_error [llx, lly] [urx, ury] =
     (py_lt llx (Num (- world_x)) \<or> py_gt llx (Num world_x)
      \<or> py_lt urx (Num (- world_x)) \<or> py_gt urx (Num world_x)
      \<or> py_lt lly (Num (- world_y)) \<or> py_gt lly (Num world_y)
      \<or> py_lt ury (Num (- world_y)) \<or> py_gt ury (Num world_y))"
  by (auto simp: coord_error_def Let_def)

text \<open>
  Once the two ordering assertions have passed, no coordinate is \<^verbatim>\<open>nan\<close>, and the
  flag \<^verbatim>\<open>coord_error\<close> says that some coordinate is outside the world extent.
\<close>

lemma coord_error_extent:
  assumes "py_lt llx urx" and "py_lt lly ury"
  shows "coord_error [llx, lly] [urx, ury] =
     (\<not> (in_extent world_x llx \<and> in_extent world_y lly
         \<and> in_extent world_x urx \<and> in_extent world_y ury))"
proof -
  from assms have "llx \<noteq> NaN" "urx \<noteq> NaN" "lly \<noteq> NaN" "ury \<noteq> NaN"
    by (auto dest: py_lt_not_NaN)
  then show ?thesis by (auto simp: coord_error_iff in_extent_iff)
qed

text \<open>
  Claim C6. For every corner pair that violates the ordering (\<open>llx < urx\<close> and
  \<open>lly < ury\<close>) or has a coordinate outside the world extent, the constructor raises
  an \<^verbatim>\<open>AssertionError\<close> and builds no object.
\<close>

theorem AOI_init_rejects:
  "\<not> (py_lt llx urx \<and> py_lt lly ury)
   \<or> \<not> (in_extent world_x llx \<and> in_extent world_y lly
        \<and> in_extent world_x urx \<and> in_extent world_y ury)
   \<longrightarrow> (\<exists>msg. (AOI_init [llx, lly] [urx, ury] :: py_error + 'v aoi) = Inl (AssertionError msg))"
proof (cases "py_lt llx urx \<and> py_lt lly ury")
  case True
  then show ?thesis by (auto simp: AOI_init_def coord_error_extent)
next
  case False
  then show ?thesis by (auto simp: AOI_init_def)
qed

theorem AOI_init_rejects_witness:
  "\<not> py_lt (Num 5) (Num 3)
   \<and> (AOI_init [Num 5, Num 0] [Num 3, Num 1] :: py_error + int aoi)
       = Inl (AssertionError e_order)
   \<and> py_lt (Num 0) (Num 30000000) \<and> py_lt (Num 0) (Num 1)
   \<and> \<not> in_extent world_x (Num 30000000)
   \<and> (AOI_init [Num 0, Num 0] [Num 30000000, Num 1] :: py_error + int aoi)
       = Inl (AssertionError e_off_planet)"
  using AOI_init_rejects [where llx = "Num 5" and urx = "Num 3" and lly = "Num 0" and ury = "Num 1"]
    AOI_init_rejects [where llx = "Num 0" and urx = "Num 30000000" and lly = "Num 0"
      and ury = "Num 1"]
  by (simp add: AOI_init_def coord_error_def py_gt_def in_extent_def world_x_def world_y_def)

text \<open>
  Claim C7. For every corner pair with \<open>llx < urx\<close>, \<open>lly < ury\<close> and both corners
  within the world extent, the constructor succeeds, and the object it builds has
  \<^verbatim>\<open>subset_coords\<close> equal to \<^verbatim>\<open>[[None, None], [None, None]]\<close>.
\<close>

theorem AOI_init_accepts:
  "py_lt llx urx \<and> py_lt lly ury
   \<and> in_extent world_x llx \<and> in_extent world_y lly
   \<and> in_extent world_x urx \<and> in_extent world_y ury
   \<longrightarrow> (\<exists>a. (AOI_init [llx, lly] [urx, ury] :: py_error + 'v aoi) = Inr a
          \<and> subset_coords a = [[None, None], [None, None]]
          \<and> tiff_stack_coords a = [[llx, lly], [urx, ury]])"
  by (auto simp: AOI_init_def coord_error_extent)

theorem AOI_init_accepts_witness:
  "py_lt (Num (- world_x)) (Num world_x) \<and> py_lt (Num (- world_y)) (Num world_y)
   \<and> in_extent world_x (Num (- world_x)) \<and> in_extent world_y (Num (- world_y))
   \<and> in_extent world_x (Num world_x) \<and> in_extent world_y (Num world_y)
   \<and> (AOI_init [Num (- world_x), Num (- world_y)] [Num world_x, Num world_y]
         :: py_error + int aoi)
       = Inr \<lparr>geom = (\<lambda>k. None),
               tiff_stack_coords = [[Num (- world_x), Num (- world_y)], [Num world_x, Num world_y]],
               subset_coords = [[None, None], [None, None]],
               p = None,
               sources = [''hover'', ''subset''],
               callbacks = [''subset'', ''latitude'', ''longitude'']\<rparr>"
  using AOI_init_accepts [where llx = "Num (- world_x)" and urx = "Num world_x"
      and lly = "Num (- world_y)" and ury = "Num world_y"]
  by (simp add: AOI_init_def coord_error_def py_gt_def in_extent_def world_x_def world_y_def)

subsection \<open>Events\<close>

text \<open>
  The callback of a selection writes the four values of the geometry into
  \<^verbatim>\<open>subset_coords\<close> as they are and in the order x0, y0, x1, y1.
\<close>

lemma python_callback_sets_coords:
  assumes "subset_coords self = [[a, b], [c, d]]"
    and "geometry ''x0'' = Some x0" and "geometry ''y0'' = Some y0"
    and "geometry ''x1'' = Some x1" and "geometry ''y1'' = Some y1"
  shows "python_callback self geometry
           = (self\<lparr>geom := geom self ++ geometry,
                   subset_coords := [[Some x0, Some y0], [Some x1, Some y1]]\<rparr>, None)"
  using assms by (simp add: python_callback_def assign_coord_def set_item2_def Let_def)

text \<open>Called directly, \<^verbatim>\<open>reset_subset_bounds\<close> restores the nulls.\<close>

lemma reset_subset_bounds_nulls:
  "subset_coords (reset_subset_bounds self) = [[None, None], [None, None]]"
  by (simp add: reset_subset_bounds_def)

lemma build_plot_fields:
  "p (build_plot self)
     = Some \<lparr>py_event_callbacks = [(SelectionGeometry, Python_callback)],
             js_event_callbacks = [(Reset, None)]\<rparr>"
  "subset_coords (build_plot self) = [[None, None], [None, None]]"
  by (simp_all add: build_plot_def reset_subset_bounds_def Let_def)

text \<open>A selection event on a built plot runs the callback.\<close>

lemma selection_event_sets_coords:
  assumes "geometry ''x0'' = Some x0" and "geometry ''y0'' = Some y0"
    and "geometry ''x1'' = Some x1" and "geometry ''y1'' = Some y1"
  shows "on_browser_event (build_plot self) (SelectionGeometry_event geometry)
           = ((build_plot self)\<lparr>geom := geom (build_plot self) ++ geometry,
                   subset_coords := [[Some x0, Some y0], [Some x1, Some y1]]\<rparr>, None)"
  using assms
  by (simp add: on_browser_event_def build_plot_fields python_callback_sets_coords)

text \<open>
  Claim C8. The claim has a reset event restore \<^verbatim>\<open>subset_coords\<close> to nulls after a
  selection. In the source \<^verbatim>\<open>build_plot\<close> calls \<^verbatim>\<open>reset_subset_bounds\<close> once,
  while the plot is built, and registers the \<^verbatim>\<open>None\<close> it returns as a browser-side
  callback; no Python callback is registered for the reset event. On a built plot a
  reset event therefore changes nothing: after the selection with x0 = 0, y0 = 0,
  x1 = 100, y1 = 100 on a default object, \<^verbatim>\<open>subset_coords\<close> is
  \<^verbatim>\<open>[[0, 0], [100, 100]]\<close> and stays so after the reset event.
\<close>

theorem reset_event_runs_no_python:
  "on_browser_event (build_plot self) Reset_event = (build_plot self, None)
   \<and> (AOI_init [Num (- world_x), Num (- world_y)] [Num world_x, Num world_y]
         :: py_error + int aoi)
       = Inr \<lparr>geom = (\<lambda>k. None),
               tiff_stack_coords = [[Num (- world_x), Num (- world_y)], [Num world_x, Num world_y]],
               subset_coords = [[None, None], [None, None]],
               p = None,
               sources = [''hover'', ''subset''],
               callbacks = [''subset'', ''latitude'', ''longitude'']\<rparr>
   \<and> subset_coords (fst (on_browser_event
        (build_plot \<lparr>geom = (\<lambda>k. None),
               tiff_stack_coords = [[Num (- world_x), Num (- world_y)], [Num world_x, Num world_y]],
               subset_coords = [[None, None], [None, None]],
               p = None,
               sources = [''hover'', ''subset''],
               callbacks = [''subset'', ''latitude'', ''longitude'']\<rparr>)
        (SelectionGeometry_event (map_of [(''x0'', 0), (''y0'', 0), (''x1'', 100), (''y1'', 100)]))))
       = [[Some (0::int), Some 0], [Some 100, Some 100]]
   \<and> subset_coords (fst (on_browser_event
        (fst (on_browser_event
          (build_plot \<lparr>geom = (\<lambda>k. None),
               tiff_stack_coords = [[Num (- world_x), Num (- world_y)], [Num world_x, Num world_y]],
               subset_coords = [[None, None], [None, None]],
               p = None,
               sources = [''hover'', ''subset''],
               callbacks = [''subset'', ''latitude'', ''longitude'']\<rparr>)
          (SelectionGeometry_event (map_of [(''x0'', 0), (''y0'', 0), (''x1'', 100), (''y1'', 100)]))))
        Reset_event))
       = [[Some (0::int), Some 0], [Some 100, Some 100]]"
proof -
  have r': "on_browser_event (build_plot self) Reset_event = (build_plot self, None)"
    by (simp add: on_browser_event_def build_plot_fields)
  have i: "(AOI_init [Num (- world_x), Num (- world_y)] [Num world_x, Num world_y]
         :: py_error + int aoi)
       = Inr \<lparr>geom = (\<lambda>k. None),
               tiff_stack_coords = [[Num (- world_x), Num (- world_y)], [Num world_x, Num world_y]],
               subset_coords = [[None, None], [None, None]],
               p = None,
               sources = [''hover'', ''subset''],
               callbacks = [''subset'', ''latitude'', ''longitude'']\<rparr>"
    by (simp add: AOI_init_def coord_error_def py_gt_def world_x_def world_y_def)
  have s: "\<And>self :: int aoi. on_browser_event (build_plot self)
        (SelectionGeometry_event (map_of [(''x0'', 0), (''y0'', 0), (''x1'', 100), (''y1'', 100)]))
       = ((build_plot self)\<lparr>geom := geom (build_plot self)
               ++ map_of [(''x0'', 0), (''y0'', 0), (''x1'', 100), (''y1'', 100)],
             subset_coords := [[Some 0, Some 0], [Some 100, Some 100]]\<rparr>, None)"
    by (rule selection_event_sets_coords) simp_all
  have k: "\<And>(self :: int aoi) g sc. on_browser_event
             ((build_plot self)\<lparr>geom := g, subset_coords := sc\<rparr>) Reset_event
           = ((build_plot self)\<lparr>geom := g, subset_coords := sc\<rparr>, None)"
    by (simp add: on_browser_event_def build_plot_fields)
  show ?thesis
    unfolding s fst_conv k by (simp add: r' i)
qed

end
